theory Spec2Isabelle
  imports Main "HOL-Library.Word" "HOL-Library.Monad_Syntax"
begin

section \<open>Bytes, wire kinds and the codec's errors\<close>

text \<open>
  A Go \<open>byte\<close> is an 8-bit word. An \<open>int8\<close> is kept as its two's-complement bit
  pattern, so the conversions \<open>byte(x)\<close> and \<open>int8(x)\<close> of the source are the identity
  and \<open>sint\<close> reads the signed value. Go's \<open>int\<close> is 64 bits wide; lengths are
  natural numbers and the truncations \<open>uint8(l)\<close>, \<open>uint16(l)\<close>, \<open>uint32(l)\<close> are
  written out where the source has them.
\<close>

type_synonym byte = "8 word"
type_synonym int8 = "8 word"

text \<open>
  Modelled from the spec: the wire kinds (the package's \<open>Type\<close> enumeration) are not in
  the sources; section 3.1 lists them. \<open>ExtKind\<close> is the source's \<open>ExtensionType\<close>
  constant (the name \<open>ExtensionType\<close> is kept for the interface method below).
\<close>

datatype Kind =
    NilKind | BoolKind | IntKind | UintKind | Float32Kind | Float64Kind
  | StrKind | BinKind | ArrayKind | MapKind | ExtKind | InvalidKind

text \<open>
  Modelled from the spec: the prefix bytes and \<open>getType\<close> are not in the sources; they
  follow the prefix table of section 3.2.
\<close>

definition mext8 :: byte where "mext8 = 0xc7"
definition mext16 :: byte where "mext16 = 0xc8"
definition mext32 :: byte where "mext32 = 0xc9"
definition mfixext1 :: byte where "mfixext1 = 0xd4"
definition mfixext2 :: byte where "mfixext2 = 0xd5"
definition mfixext4 :: byte where "mfixext4 = 0xd6"
definition mfixext8 :: byte where "mfixext8 = 0xd7"
definition mfixext16 :: byte where "mfixext16 = 0xd8"

definition getType :: "byte \<Rightarrow> Kind" where
  "getType v =
     (let n = unat v in
      if n \<le> 0x7f then IntKind
      else if n \<le> 0x8f then MapKind
      else if n \<le> 0x9f then ArrayKind
      else if n \<le> 0xbf then StrKind
      else if n = 0xc0 then NilKind
      else if n = 0xc1 then InvalidKind
      else if n \<le> 0xc3 then BoolKind
      else if n \<le> 0xc6 then BinKind
      else if n \<le> 0xc9 then ExtKind
      else if n = 0xca then Float32Kind
      else if n = 0xcb then Float64Kind
      else if n \<le> 0xcf then UintKind
      else if n \<le> 0xd3 then IntKind
      else if n \<le> 0xd8 then ExtKind
      else if n \<le> 0xdb then StrKind
      else if n \<le> 0xdd then ArrayKind
      else if n \<le> 0xdf then MapKind
      else IntKind)"

text \<open>
  The errors of the package (the \<open>Error\<close> interface of the source): \<open>errShort\<close> is
  the value \<open>ErrShortBytes\<close>, \<open>errFatal\<close> the value \<open>fatal\<close>. The fields are the
  source's, in its order: \<open>ArrayError{Wanted, Got}\<close>, \<open>IntOverflow{Value, FailedBitsize}\<close>,
  \<open>UintOverflow{Value, FailedBitsize}\<close>, \<open>TypeError{Method, Encoded}\<close>,
  \<open>ExtensionTypeError{Got, Want}\<close>.
\<close>

datatype Error =
    errShort
  | errFatal
  | ArrayError "32 word" "32 word"
  | IntOverflow "64 word" int
  | UintOverflow "64 word" int
  | TypeError Kind Kind
  | InvalidPrefixError byte
  | ExtensionTypeError int8 int8

abbreviation ErrShortBytes :: Error where "ErrShortBytes \<equiv> errShort"
abbreviation fatal :: Error where "fatal \<equiv> errFatal"

text \<open>The method \<open>Resumable\<close>, one equation per receiver type of the source.\<close>

fun Resumable :: "Error \<Rightarrow> bool" where
  "Resumable errShort = True"
| "Resumable errFatal = False"
| "Resumable (ArrayError w g) = True"
| "Resumable (IntOverflow v n) = True"
| "Resumable (UintOverflow v n) = True"
| "Resumable (TypeError m e) = True"
| "Resumable (InvalidPrefixError b) = False"
| "Resumable (ExtensionTypeError g w) = True"

definition errExt :: "int8 \<Rightarrow> int8 \<Rightarrow> Error" where
  "errExt got wanted = ExtensionTypeError got wanted"

text \<open>
  A Go \<open>error\<close> value returned by the codec: one of the package's errors, or the
  failure of the sink underneath a \<open>Writer\<close>.
\<close>

datatype error = Msgp Error | SinkFailed

section \<open>Extensions\<close>

record RawExtension =
  Type :: int8
  Data :: "byte list"

definition ExtensionType :: "RawExtension \<Rightarrow> int8" where
  "ExtensionType r = Type r"

definition Len :: "RawExtension \<Rightarrow> nat" where
  "Len r = length (Data r)"

text \<open>
  Go's builtin \<open>copy(dst, src)\<close>: the first \<open>min (len dst) (len src)\<close> bytes of \<open>dst\<close>
  are overwritten.
\<close>

definition copy :: "byte list \<Rightarrow> byte list \<Rightarrow> byte list" where
  "copy dst src = take (length dst) src @ drop (length src) dst"

text \<open>
  \<open>MarshalBinaryTo\<close> writes into the slice it is given; the model returns the slice's
  new contents and the error (always nil).
\<close>

definition MarshalBinaryTo :: "RawExtension \<Rightarrow> byte list \<Rightarrow> byte list \<times> error option" where
  "MarshalBinaryTo r d = (copy d (Data r), None)"

text \<open>
  \<open>UnmarshalBinary\<close> makes \<open>r.Data\<close> a slice of length \<open>len(b)\<close> (reusing its capacity
  or allocating) and copies \<open>b\<close> into it.
\<close>

definition UnmarshalBinary :: "RawExtension \<Rightarrow> byte list \<Rightarrow> RawExtension \<times> error option" where
  "UnmarshalBinary r b = (r\<lparr>Data := copy (replicate (length b) 0) b\<rparr>, None)"

subsection \<open>Slices and panics\<close>

text \<open>
  An index or a slice expression out of range panics in Go. A function of the source
  that can reach one returns an option: \<open>None\<close> is the panic.
\<close>

definition index :: "byte list \<Rightarrow> nat \<Rightarrow> byte option" where
  "index b i = (if i < length b then Some (b ! i) else None)"

definition put :: "byte list \<Rightarrow> nat \<Rightarrow> byte \<Rightarrow> byte list option" where
  "put b i v = (if i < length b then Some (b[i := v]) else None)"

text \<open>\<open>big.PutUint16(b[i:], v)\<close> and \<open>big.PutUint32(b[i:], v)\<close>: big endian.\<close>

definition big_PutUint16 :: "byte list \<Rightarrow> nat \<Rightarrow> nat \<Rightarrow> byte list option" where
  "big_PutUint16 b i v =
     (if i + 1 < length b
      then Some (b[i := of_nat (v div 2 ^ 8), i + 1 := of_nat v])
      else None)"

definition big_PutUint32 :: "byte list \<Rightarrow> nat \<Rightarrow> nat \<Rightarrow> byte list option" where
  "big_PutUint32 b i v =
     (if i + 3 < length b
      then Some (b[i := of_nat (v div 2 ^ 24), i + 1 := of_nat (v div 2 ^ 16),
                   i + 2 := of_nat (v div 2 ^ 8), i + 3 := of_nat v])
      else None)"

text \<open>\<open>big.Uint16(b[i:])\<close> and \<open>big.Uint32(b[i:])\<close>, read where the caller has checked the length.\<close>

definition big_Uint16 :: "byte list \<Rightarrow> nat \<Rightarrow> nat" where
  "big_Uint16 b i = unat (b ! i) * 2 ^ 8 + unat (b ! (i + 1))"

definition big_Uint32 :: "byte list \<Rightarrow> nat \<Rightarrow> nat" where
  "big_Uint32 b i =
     unat (b ! i) * 2 ^ 24 + unat (b ! (i + 1)) * 2 ^ 16
       + unat (b ! (i + 2)) * 2 ^ 8 + unat (b ! (i + 3))"

definition MaxUint8 :: nat where "MaxUint8 = 255"
definition MaxUint16 :: nat where "MaxUint16 = 65535"

subsection \<open>peekExtension\<close>

text \<open>
  The source indexes \<open>b\<close> directly; each index goes through \<open>index\<close>, so an access past
  the end is the panic \<open>None\<close>. The result is the pair of the source, as a sum: the
  error, or the type id.
\<close>

definition peekExtension :: "byte list \<Rightarrow> (Error + int8) option" where
  "peekExtension b =
     do {
       lead \<leftarrow> index b 0;
       if lead = mfixext1 \<or> lead = mfixext2 \<or> lead = mfixext4
            \<or> lead = mfixext8 \<or> lead = mfixext16
       then do { t \<leftarrow> index b 1; Some (Inr t) }
       else if lead = mext8
       then do { t \<leftarrow> index b 2; Some (Inr t) }
       else if lead = mext16
       then (if length b < 4 then Some (Inl ErrShortBytes)
             else do { t \<leftarrow> index b 3; Some (Inr t) })
       else if lead = mext32
       then (if length b < 5 then Some (Inl ErrShortBytes)
             else do { t \<leftarrow> index b 5; Some (Inr t) })
       else Some (Inl (InvalidPrefixError lead))
     }"

subsection \<open>AppendExtension\<close>

definition slice :: "byte list \<Rightarrow> nat \<Rightarrow> nat \<Rightarrow> byte list option" where
  "slice b i j = (if i \<le> j \<and> j \<le> length b then Some (take (j - i) (drop i b)) else None)"

text \<open>Writing \<open>d\<close> through the sub-slice \<open>b[i : i + len(d)]\<close>, which shares \<open>b\<close>'s memory.\<close>

definition store :: "byte list \<Rightarrow> nat \<Rightarrow> byte list \<Rightarrow> byte list" where
  "store b i d = take i b @ d @ drop (i + length d) b"

text \<open>
  Modelled from the spec: \<open>ensure\<close> and \<open>ExtensionPrefixSize\<close> are not in the sources.
  The slice API's writers "take (buf, value) and return the grown buffer" (section 4.1):
  \<open>ensure b sz\<close> is \<open>b\<close> grown by \<open>sz\<close> writable bytes, with the old length, the offset
  where they begin. \<open>ExtensionPrefixSize\<close> is the longest extension header of the prefix
  table: the ext32 prefix, four length bytes and the type byte.
\<close>

definition ExtensionPrefixSize :: nat where "ExtensionPrefixSize = 6"

definition ensure :: "byte list \<Rightarrow> nat \<Rightarrow> byte list \<times> nat" where
  "ensure b sz = (b @ replicate sz 0, length b)"

text \<open>
  The first \<open>switch\<close> of the source returns only in its case 0; the cases 1, 2, 4, 8
  and 16 write the fixext header, advance \<open>n\<close> by two and leave the \<open>switch\<close>, so
  control reaches the second \<open>switch\<close> for them as for every other nonzero length.
\<close>

definition AppendExtension :: "byte list \<Rightarrow> RawExtension \<Rightarrow> (byte list \<times> error option) option" where
  "AppendExtension b e =
     (let l = Len e; t = ExtensionType e; (ob, n) = ensure b (ExtensionPrefixSize + l) in
      if l = 0 then
        do {
          ob \<leftarrow> put ob n mext8;
          ob \<leftarrow> put ob (n + 1) 0;
          ob \<leftarrow> put ob (n + 2) t;
          r \<leftarrow> slice ob 0 (n + 3);
          Some (r, None)
        }
      else
        do {
          (ob, n) \<leftarrow>
            (if l = 1 then do { ob \<leftarrow> put ob n mfixext1; ob \<leftarrow> put ob (n + 1) t; Some (ob, n + 2) }
             else if l = 2 then do { ob \<leftarrow> put ob n mfixext2; ob \<leftarrow> put ob (n + 1) t; Some (ob, n + 2) }
             else if l = 4 then do { ob \<leftarrow> put ob n mfixext4; ob \<leftarrow> put ob (n + 1) t; Some (ob, n + 2) }
             else if l = 8 then do { ob \<leftarrow> put ob n mfixext8; ob \<leftarrow> put ob (n + 1) t; Some (ob, n + 2) }
             else if l = 16 then do { ob \<leftarrow> put ob n mfixext16; ob \<leftarrow> put ob (n + 1) t; Some (ob, n + 2) }
             else Some (ob, n));
          (ob, n) \<leftarrow>
            (if l < MaxUint8 then
               do {
                 ob \<leftarrow> put ob n mext8;
                 ob \<leftarrow> put ob (n + 1) (of_nat l);
                 ob \<leftarrow> put ob (n + 2) t;
                 Some (ob, n + 3)
               }
             else if l < MaxUint16 then
               do {
                 ob \<leftarrow> put ob n mext16;
                 ob \<leftarrow> big_PutUint16 ob (n + 1) (l mod 2 ^ 16);
                 ob \<leftarrow> put ob (n + 3) t;
                 Some (ob, n + 4)
               }
             else
               do {
                 ob \<leftarrow> put ob n mext32;
                 ob \<leftarrow> big_PutUint32 ob (n + 1) (l mod 2 ^ 32);
                 ob \<leftarrow> put ob (n + 5) t;
                 Some (ob, n + 6)
               });
          d \<leftarrow> slice ob n (n + l);
          (let (d', err) = MarshalBinaryTo e d in
           do { r \<leftarrow> slice (store ob n d') 0 (n + l); Some (r, err) })
        })"

subsection \<open>ReadExtensionBytes\<close>

text \<open>
  The result is the pair of the source (the remaining bytes and the error) and the
  extension after the call, which \<open>UnmarshalBinary\<close> changes. The \<open>switch\<close> either
  returns (\<open>Inl\<close>) or leaves \<open>typ\<close>, \<open>sz\<close> and \<open>off\<close> (\<open>Inr\<close>) for the code after it. Every
  index is below the length the source has checked before it.
\<close>

definition ReadExtensionBytes ::
    "byte list \<Rightarrow> RawExtension \<Rightarrow> byte list \<times> error option \<times> RawExtension" where
  "ReadExtensionBytes b e =
     (let l = length b in
      if l < 3 then (b, Some (Msgp ErrShortBytes), e)
      else
        (let lead = b ! 0;
             sw =
               (if lead = mfixext1 then Inr (b ! 1, 1, 2)
                else if lead = mfixext2 then Inr (b ! 1, 2, 2)
                else if lead = mfixext4 then Inr (b ! 1, 4, 2)
                else if lead = mfixext8 then Inr (b ! 1, 8, 2)
                else if lead = mfixext16 then Inr (b ! 1, 16, 2)
                else if lead = mext8 then
                  (let sz = unat (b ! 1); typ = b ! 2 in
                   if sz = 0
                   then (let (e', err) = UnmarshalBinary e [] in Inl (drop 3 b, err, e'))
                   else Inr (typ, sz, 3))
                else if lead = mext16 then
                  (if l < 4 then Inl (b, Some (Msgp ErrShortBytes), e)
                   else Inr (b ! 3, big_Uint16 b 1, 4))
                else if lead = mext32 then
                  (if l < 6 then Inl (b, Some (Msgp ErrShortBytes), e)
                   else Inr (b ! 5, big_Uint32 b 1, 6))
                else Inl (b, Some (Msgp (TypeError ExtKind (getType lead))), e))
         in case sw of
              Inl r \<Rightarrow> r
            | Inr (typ, sz, off) \<Rightarrow>
                if typ \<noteq> ExtensionType e
                then (b, Some (Msgp (errExt typ (ExtensionType e))), e)
                else if length (drop off b) < sz
                then (b, Some (Msgp ErrShortBytes), e)
                else (let (e', err) = UnmarshalBinary e (take sz (drop off b))
                      in (drop (off + sz) b, err, e'))))"

subsection \<open>The Writer and WriteExtension\<close>

text \<open>
  Modelled from the spec: the \<open>Writer\<close> type, \<open>flush\<close> and \<open>require\<close> are not in the
  sources. A \<open>Writer\<close> "wraps a sink and owns an output buffer"; \<open>require(k)\<close> "ensures
  \<open>k\<close> contiguous writable bytes, flushing to the sink if necessary" and returns "the
  offset where those bytes begin"; \<open>Flush\<close> "writes the current buffer to the sink and
  resets" (sections 4.1 and 4.4). \<open>WriteExtension\<close> appends to \<open>mw.buf\<close> and passes
  \<open>mw.buf[o:]\<close> as the slice to fill, so the buffer's length is the write position:
  \<open>require\<close> grows the buffer by \<open>k\<close> bytes when its capacity allows, and otherwise
  flushes and starts a buffer of \<open>k\<close> bytes. The bytes it hands out hold what the
  buffer's memory held before; they are zero here. \<open>sink\<close> holds the bytes the sink
  has received; \<open>broken\<close> is a sink that refuses every write.
\<close>

record Writer =
  sink :: "byte list"
  broken :: bool
  buf :: "byte list"
  bufcap :: nat

definition flush :: "Writer \<Rightarrow> error option \<times> Writer" where
  "flush mw =
     (if buf mw = [] then (None, mw)
      else if broken mw then (Some SinkFailed, mw)
      else (None, mw\<lparr>sink := sink mw @ buf mw, buf := []\<rparr>))"

definition Flush :: "Writer \<Rightarrow> error option \<times> Writer" where
  "Flush mw = flush mw"

definition require :: "nat \<Rightarrow> Writer \<Rightarrow> (nat \<times> error option) \<times> Writer" where
  "require n mw =
     (if length (buf mw) + n \<le> bufcap mw
      then ((length (buf mw), None), mw\<lparr>buf := buf mw @ replicate n 0\<rparr>)
      else
        (case flush mw of
           (Some err, mw') \<Rightarrow> ((0, Some err), mw')
         | (None, mw') \<Rightarrow>
             ((0, None), mw'\<lparr>buf := replicate n 0, bufcap := max (bufcap mw') n\<rparr>)))"

text \<open>Go's \<open>append(mw.buf, p, t)\<close>: the slice grows past its capacity when it must.\<close>

definition append2 :: "Writer \<Rightarrow> byte \<Rightarrow> byte \<Rightarrow> Writer" where
  "append2 mw p t =
     mw\<lparr>buf := buf mw @ [p, t], bufcap := max (bufcap mw) (length (buf mw) + 2)\<rparr>"

text \<open>
  The header step of \<open>WriteExtension\<close> either returns the error of \<open>require\<close> (\<open>Inl\<close>)
  or goes on with the writer (\<open>Inr\<close>). In the ext16 and ext32 cases the source stores
  the type byte at \<open>mw.buf[3]\<close> and \<open>mw.buf[5]\<close>, not at \<open>o+3\<close> and \<open>o+5\<close>.
\<close>

definition WriteExtension :: "RawExtension \<Rightarrow> Writer \<Rightarrow> (error option \<times> Writer) option" where
  "WriteExtension e mw =
     (let l = Len e; t = ExtensionType e in
      do {
        hdr \<leftarrow>
          (if l = 0 then
             (case require 3 mw of
                ((off, Some err), mw) \<Rightarrow> Some (Inl (err, mw))
              | ((off, None), mw) \<Rightarrow>
                  do {
                    b \<leftarrow> put (buf mw) off mext8;
                    b \<leftarrow> put b (off + 1) 0;
                    b \<leftarrow> put b (off + 2) t;
                    Some (Inr (mw\<lparr>buf := b\<rparr>))
                  })
           else if l = 1 then Some (Inr (append2 mw mfixext1 t))
           else if l = 2 then Some (Inr (append2 mw mfixext2 t))
           else if l = 4 then Some (Inr (append2 mw mfixext4 t))
           else if l = 8 then Some (Inr (append2 mw mfixext8 t))
           else if l = 16 then Some (Inr (append2 mw mfixext16 t))
           else if l < MaxUint8 then
             (case require 3 mw of
                ((off, Some err), mw) \<Rightarrow> Some (Inl (err, mw))
              | ((off, None), mw) \<Rightarrow>
                  do {
                    b \<leftarrow> put (buf mw) off mext8;
                    b \<leftarrow> put b (off + 1) (of_nat l);
                    b \<leftarrow> put b (off + 2) t;
                    Some (Inr (mw\<lparr>buf := b\<rparr>))
                  })
           else if l < MaxUint16 then
             (case require 4 mw of
                ((off, Some err), mw) \<Rightarrow> Some (Inl (err, mw))
              | ((off, None), mw) \<Rightarrow>
                  do {
                    b \<leftarrow> put (buf mw) off mext16;
                    b \<leftarrow> big_PutUint16 b (off + 1) (l mod 2 ^ 16);
                    b \<leftarrow> put b 3 t;
                    Some (Inr (mw\<lparr>buf := b\<rparr>))
                  })
           else
             (case require 6 mw of
                ((off, Some err), mw) \<Rightarrow> Some (Inl (err, mw))
              | ((off, None), mw) \<Rightarrow>
                  do {
                    b \<leftarrow> put (buf mw) off mext32;
                    b \<leftarrow> big_PutUint32 b (off + 1) (l mod 2 ^ 32);
                    b \<leftarrow> put b 5 t;
                    Some (Inr (mw\<lparr>buf := b\<rparr>))
                  }));
        (case hdr of
           Inl (err, mw) \<Rightarrow> Some (Some err, mw)
         | Inr mw \<Rightarrow>
             (case require l mw of
                ((off, Some err), mw) \<Rightarrow> Some (Some err, mw)
              | ((off, None), mw) \<Rightarrow>
                  do {
                    d \<leftarrow> slice (buf mw) off (length (buf mw));
                    (let (d', err) = MarshalBinaryTo e d
                     in Some (err, mw\<lparr>buf := store (buf mw) off d'\<rparr>))
                  }))
      })"

text \<open>A writer over an empty sink, with an empty buffer of capacity \<open>sz\<close>.\<close>

definition emptyWriter :: "nat \<Rightarrow> Writer" where
  "emptyWriter sz = \<lparr>sink = [], broken = False, buf = [], bufcap = sz\<rparr>"

text \<open>The bytes the sink holds after \<open>WriteExtension\<close> and \<open>Flush\<close> on such a writer.\<close>

definition written :: "nat \<Rightarrow> RawExtension \<Rightarrow> (error option \<times> byte list) option" where
  "written sz e =
     (case WriteExtension e (emptyWriter sz) of
        None \<Rightarrow> None
      | Some (Some err, mw) \<Rightarrow> Some (Some err, sink mw)
      | Some (None, mw) \<Rightarrow> (case Flush mw of (err, mw') \<Rightarrow> Some (err, sink mw')))"

section \<open>The element tree of the code generator\<close>

text \<open>
  Modelled from the spec: the types of package \<open>gen\<close> are not in the sources (only its
  templates are); section 3.3 gives them. \<open>Base\<close> is the enumeration of base kinds, with
  the constants \<open>pullIdent\<close> returns (\<open>gen.Int\<close> is written \<open>IntBase\<close>). A \<open>BaseElem\<close>
  has the fields the parser and the resolver set; \<open>Struct\<close> has \<open>Name\<close>, \<open>Fields\<close> and
  \<open>AsTuple\<close>, \<open>Array\<close> has \<open>Size\<close> and \<open>Els\<close>, \<open>Ptr\<close> and \<open>Map\<close> have \<open>Value\<close>, \<open>Slice\<close>
  has \<open>Els\<close>. The tree is a value: the parser allocates every node afresh, so the
  resolver's update in place is the returned, rewritten tree.
\<close>

datatype Base =
    String | Bytes | Byte | IntBase | Int8 | Int16 | Int32 | Int64
  | Uint | Uint8 | Uint16 | Uint32 | Uint64 | Bool | Float64 | Float32
  | Complex64 | Complex128 | Time | Intf | Ext | IDENT

record BaseElem =
  Value :: Base
  Ident :: string
  Convert :: bool
  ShimToBase :: string
  ShimFromBase :: string

text \<open>Go's zero value of \<open>gen.BaseElem\<close> but for \<open>Value\<close>: \<open>&gen.BaseElem{Value: v}\<close>.\<close>

definition baseOf :: "Base \<Rightarrow> BaseElem" where
  "baseOf v = \<lparr>Value = v, Ident = [], Convert = False, ShimToBase = [], ShimFromBase = []\<rparr>"

datatype Elem =
    Ptr Elem
  | Slice Elem
  | Array string Elem
  | Map Elem
  | Struct string "StructField list" bool
  | Base BaseElem
and StructField =
    StructField (FieldTag: string) (FieldName: string) (FieldElem: Elem)

section \<open>The declarations the parser reads\<close>

text \<open>
  The part of Go's \<open>go/ast\<close> the parser inspects. \<open>IdentExpr\<close> is \<open>*ast.Ident\<close>;
  \<open>ArrayType len elt\<close> has \<open>Len = nil\<close> (\<open>None\<close>) for a slice; \<open>InterfaceType n\<close> is an
  interface type with \<open>n\<close> entries in \<open>Methods.List\<close>; \<open>OtherExpr\<close> stands for the
  expressions no \<open>case\<close> of the source names (function and channel types and so on).
  A field is \<open>AstField names type tag\<close>: \<open>tag = None\<close> is \<open>field.Tag == nil\<close>, and
  \<open>Some body\<close> is a tag whose \<open>msg\<close> value, as \<open>reflect.StructTag.Get("msg")\<close> returns it,
  is \<open>body\<close> (the empty string when the tag has no \<open>msg\<close> key).
\<close>

datatype expr =
    IdentExpr string
  | BasicLit string
  | ArrayType "expr option" expr
  | StarExpr expr
  | MapType expr expr
  | StructType "field list"
  | SelectorExpr expr string
  | InterfaceType nat
  | OtherExpr
and field =
    AstField "string list" expr "string option"

text \<open>A declaration of a file: a \<open>GenDecl\<close> with its specs, or another declaration.\<close>

datatype spec = TypeSpec string expr | OtherSpec
datatype decl = GenDecl "spec list" | OtherDecl

type_synonym idents = "string \<rightharpoonup> Base"
type_synonym processed = "string set"

subsection \<open>pullIdent\<close>

definition pullIdent :: "string \<Rightarrow> Base" where
  "pullIdent name =
     (if name = ''string'' then String
      else if name = ''[]byte'' then Bytes
      else if name = ''byte'' then Byte
      else if name = ''int'' then IntBase
      else if name = ''int8'' then Int8
      else if name = ''int16'' then Int16
      else if name = ''int32'' then Int32
      else if name = ''int64'' then Int64
      else if name = ''uint'' then Uint
      else if name = ''uint8'' then Uint8
      else if name = ''uint16'' then Uint16
      else if name = ''uint32'' then Uint32
      else if name = ''uint64'' then Uint64
      else if name = ''bool'' then Bool
      else if name = ''float64'' then Float64
      else if name = ''float32'' then Float32
      else if name = ''complex64'' then Complex64
      else if name = ''complex128'' then Complex128
      else if name = ''time.Time'' then Time
      else if name = ''interface{}'' then Intf
      else if name = ''msgp.Extension'' \<or> name = ''Extension'' then Ext
      else IDENT)"

subsection \<open>GetTypeSpecs: pass 1\<close>

text \<open>
  The \<open>switch ts.Type.(type)\<close> of \<open>GetTypeSpecs\<close>: what it records in \<open>globalIdents\<close>
  for the declaration \<open>type name t\<close>. The \<open>*ast.ArrayType\<close> case looks at the element
  only, not at \<open>Len\<close>.
\<close>

fun recordIdent :: "string \<Rightarrow> expr \<Rightarrow> idents \<Rightarrow> idents" where
  "recordIdent name (StructType fl) gi = gi(name \<mapsto> IDENT)"
| "recordIdent name (IdentExpr x) gi = gi(name \<mapsto> pullIdent x)"
| "recordIdent name (ArrayType len (IdentExpr x)) gi =
     (if x = ''byte'' then gi(name \<mapsto> Bytes) else gi(name \<mapsto> IDENT))"
| "recordIdent name (ArrayType len elt) gi = gi(name \<mapsto> IDENT)"
| "recordIdent name (StarExpr x) gi = gi(name \<mapsto> IDENT)"
| "recordIdent name (MapType k v) gi = gi(name \<mapsto> IDENT)"
| "recordIdent name t gi = gi"

fun GetTypeSpecs_specs ::
    "spec list \<Rightarrow> (string \<times> expr) list \<times> idents \<Rightarrow> (string \<times> expr) list \<times> idents" where
  "GetTypeSpecs_specs [] acc = acc"
| "GetTypeSpecs_specs (TypeSpec name t # ss) (out, gi) =
     GetTypeSpecs_specs ss (out @ [(name, t)], recordIdent name t gi)"
| "GetTypeSpecs_specs (OtherSpec # ss) acc = GetTypeSpecs_specs ss acc"

fun GetTypeSpecs_decls ::
    "decl list \<Rightarrow> (string \<times> expr) list \<times> idents \<Rightarrow> (string \<times> expr) list \<times> idents" where
  "GetTypeSpecs_decls [] acc = acc"
| "GetTypeSpecs_decls (GenDecl ss # ds) acc = GetTypeSpecs_decls ds (GetTypeSpecs_specs ss acc)"
| "GetTypeSpecs_decls (OtherDecl # ds) acc = GetTypeSpecs_decls ds acc"

text \<open>
  \<open>GetTypeSpecs f\<close> on the file with declarations \<open>f\<close>, from the table \<open>gi\<close>: the type
  specs in order, and \<open>globalIdents\<close> afterwards.
\<close>

definition GetTypeSpecs :: "decl list \<Rightarrow> idents \<Rightarrow> (string \<times> expr) list \<times> idents" where
  "GetTypeSpecs f gi = GetTypeSpecs_decls f ([], gi)"

subsection \<open>Strings\<close>

text \<open>Go's \<open>strings.Split\<close> on a one-character separator, \<open>strings.HasPrefix\<close> and \<open>strings.TrimPrefix\<close>.\<close>

fun Split :: "string \<Rightarrow> char \<Rightarrow> string list" where
  "Split [] sep = [[]]"
| "Split (c # cs) sep =
     (if c = sep then [] # Split cs sep
      else (c # hd (Split cs sep)) # tl (Split cs sep))"

definition HasPrefix :: "string \<Rightarrow> string \<Rightarrow> bool" where
  "HasPrefix s p = (take (length p) s = p)"

definition TrimPrefix :: "string \<Rightarrow> string \<Rightarrow> string" where
  "TrimPrefix s p = (if HasPrefix s p then drop (length p) s else s)"

subsection \<open>parseFieldList and parseExpr: pass 2\<close>

fun embedded :: "expr \<Rightarrow> string" where
  "embedded (IdentExpr name) = name"
| "embedded (StarExpr x) = embedded x"
| "embedded f = []"

definition parseShim :: "string \<Rightarrow> string \<Rightarrow> Base \<times> string \<times> string" where
  "parseShim asTag usingTag =
     (let tp = pullIdent (TrimPrefix asTag ''as:'');
          lrs = Split (TrimPrefix usingTag ''using:'') CHR ''/''
      in if length lrs = 2 then (tp, lrs ! 0, lrs ! 1) else (tp, [], []))"

text \<open>
  The block \<open>if flagExtension\<close> of \<open>parseFieldList\<close>: a base element, or a pointer to
  one, gets the base \<open>Ext\<close>; any other element makes the loop skip the field (\<open>None\<close>).
\<close>

fun asExtension :: "Elem \<Rightarrow> Elem option" where
  "asExtension (Ptr (Base b)) = Some (Ptr (Base (b\<lparr>Value := Ext\<rparr>)))"
| "asExtension (Ptr v) = None"
| "asExtension (Base b) = Some (Base (b\<lparr>Value := Ext\<rparr>))"
| "asExtension e = None"

text \<open>
  The body of the loop of \<open>parseFieldList\<close> from \<open>if sf.FieldTag == ""\<close> to its end,
  for a field named \<open>fieldName\<close> whose tag so far is \<open>fieldTag\<close>. \<open>el\<close> is the result of
  \<open>parseExpr(field.Type)\<close>, which has no effect but its result; the fields appended to
  \<open>out\<close> are returned.
\<close>

definition fieldRest :: "string \<Rightarrow> string \<Rightarrow> bool \<Rightarrow> Elem option \<Rightarrow> StructField list" where
  "fieldRest fieldName fieldTag flagExtension el =
     (if fieldTag = ''-'' then []
      else
        (let tag = (if fieldTag = [] then fieldName else fieldTag) in
         case el of
           None \<Rightarrow> []
         | Some e \<Rightarrow>
             if flagExtension
             then (case asExtension e of
                     None \<Rightarrow> []
                   | Some e' \<Rightarrow> [StructField tag fieldName e'])
             else [StructField tag fieldName e]))"

text \<open>The body of the loop from \<open>var flagExtension bool\<close>: the tag is read.\<close>

definition fieldTagged :: "string \<Rightarrow> string option \<Rightarrow> Elem option \<Rightarrow> StructField list" where
  "fieldTagged fieldName tag el =
     (case tag of
        None \<Rightarrow> fieldRest fieldName [] False el
      | Some body \<Rightarrow>
          (let tags = Split body CHR '','' in
           if length tags = 2
           then fieldRest fieldName (tags ! 0) (tags ! 1 = ''extension'') el
           else if length tags = 3 \<and> HasPrefix (tags ! 1) ''as:''
                   \<and> HasPrefix (tags ! 2) ''using:''
           then (case parseShim (tags ! 1) (tags ! 2) of
                   (tp, toShim, fromShim) \<Rightarrow>
                     if toShim \<noteq> [] \<and> fromShim \<noteq> []
                     then [StructField (tags ! 0) fieldName
                             (Base ((baseOf tp)\<lparr>Convert := True, ShimToBase := toShim,
                                                ShimFromBase := fromShim\<rparr>))]
                     else [])
           else fieldRest fieldName (tags ! 0) False el))"

text \<open>
  One round of the loop, by the number of names of the field: one name, none (an
  embedded field), or several. With several names the tag is not read: every name
  becomes a field whose tag is the name.
\<close>

definition parseField ::
    "string list \<Rightarrow> expr \<Rightarrow> string option \<Rightarrow> Elem option \<Rightarrow> StructField list" where
  "parseField names t tag el =
     (case names of
        [name] \<Rightarrow> fieldTagged name tag el
      | [] \<Rightarrow> (if embedded t = [] then [] else fieldTagged (embedded t) tag el)
      | name # others \<Rightarrow>
          (case el of
             None \<Rightarrow> []
           | Some e \<Rightarrow> map (\<lambda>nm. StructField nm nm e) names))"

fun parseExpr :: "expr \<Rightarrow> Elem option"
and parseFieldList :: "field list \<Rightarrow> StructField list" where
  "parseExpr (MapType k v) =
     (case k of
        IdentExpr kn \<Rightarrow>
          if kn = ''string''
          then (case parseExpr v of Some inner \<Rightarrow> Some (Map inner) | None \<Rightarrow> None)
          else None
      | _ \<Rightarrow> None)"
| "parseExpr (IdentExpr name) =
     Some (Base ((baseOf (pullIdent name))
                   \<lparr>Ident := (if pullIdent name = IDENT then name else [])\<rparr>))"
| "parseExpr (ArrayType len elt) =
     (if len = None \<and> elt = IdentExpr ''byte'' then Some (Base (baseOf Bytes))
      else
        (case parseExpr elt of
           None \<Rightarrow> None
         | Some els \<Rightarrow>
             (case len of
                Some (BasicLit v) \<Rightarrow> Some (Array v els)
              | Some (IdentExpr n) \<Rightarrow> Some (Array n els)
              | Some other \<Rightarrow> None
              | None \<Rightarrow> Some (Slice els))))"
| "parseExpr (StarExpr x) =
     (case parseExpr x of Some v \<Rightarrow> Some (Ptr v) | None \<Rightarrow> None)"
| "parseExpr (StructType fl) =
     (let flds = parseFieldList fl
      in if length flds > 0 then Some (Struct [] flds False) else None)"
| "parseExpr (SelectorExpr x sel) =
     (case x of
        IdentExpr im \<Rightarrow>
          if sel = ''Time'' \<and> im = ''time'' then Some (Base (baseOf Time))
          else Some (Base ((baseOf IDENT)\<lparr>Ident := im @ ''.'' @ sel\<rparr>))
      | _ \<Rightarrow> None)"
| "parseExpr (InterfaceType n) = (if n = 0 then Some (Base (baseOf Intf)) else None)"
| "parseExpr (BasicLit v) = None"
| "parseExpr OtherExpr = None"
| "parseFieldList [] = []"
| "parseFieldList (AstField names t tag # fl) =
     parseField names t tag (parseExpr t) @ parseFieldList fl"

subsection \<open>GenElem\<close>

text \<open>
  \<open>GenElem\<close> on the type spec \<open>(name, t)\<close>: the element (\<open>None\<close> is \<open>nil\<close>) and
  \<open>globalProcessed\<close> afterwards. A struct is marked as processed also when it has no
  usable field.
\<close>

fun GenElem :: "string \<times> expr \<Rightarrow> processed \<Rightarrow> Elem option \<times> processed" where
  "GenElem (name, StructType fl) gp =
     (let p = Ptr (Struct name (parseFieldList fl) False)
      in if length (parseFieldList fl) = 0 then (None, insert name gp)
         else (Some p, insert name gp))"
| "GenElem (name, t) gp = (None, gp)"

subsection \<open>findUnresolved\<close>

text \<open>
  \<open>findUnresolved\<close> on \<open>g\<close> under \<open>globalIdents = gi\<close> and \<open>globalProcessed = gp\<close>: the
  tree after the call and the identifiers returned. The \<open>switch\<close> has no case for an
  array: it is the \<open>default\<close>, which returns nil and goes no further.
\<close>

fun findUnresolved :: "idents \<Rightarrow> processed \<Rightarrow> Elem \<Rightarrow> Elem \<times> string list"
and findUnresolved_fields ::
    "idents \<Rightarrow> processed \<Rightarrow> StructField list \<Rightarrow> StructField list \<times> string list" where
  "findUnresolved gi gp (Ptr v) =
     (case findUnresolved gi gp v of (v', unr) \<Rightarrow> (Ptr v', unr))"
| "findUnresolved gi gp (Slice els) =
     (case findUnresolved gi gp els of (els', unr) \<Rightarrow> (Slice els', unr))"
| "findUnresolved gi gp (Base b) =
     (if Value b = IDENT then
        (case gi (Ident b) of
           Some tp \<Rightarrow>
             if Ident b \<in> gp then (Base b, [])
             else if tp \<noteq> IDENT
             then (Base ((baseOf tp)\<lparr>Ident := Ident b, Convert := True\<rparr>), [])
             else (Base b, [Ident b])
         | None \<Rightarrow> (Base b, [Ident b]))
      else (Base b, []))"
| "findUnresolved gi gp (Struct nm flds asTuple) =
     (case findUnresolved_fields gi gp flds of
        (flds', unr) \<Rightarrow>
          (Struct nm flds' asTuple,
           (if gi nm = None \<and> nm \<noteq> [] then [nm] else []) @ unr))"
| "findUnresolved gi gp (Map v) =
     (case findUnresolved gi gp v of (v', unr) \<Rightarrow> (Map v', unr))"
| "findUnresolved gi gp (Array sz els) = (Array sz els, [])"
| "findUnresolved_fields gi gp [] = ([], [])"
| "findUnresolved_fields gi gp (StructField tag name e # flds) =
     (case findUnresolved gi gp e of
        (e', unr) \<Rightarrow>
          (case findUnresolved_fields gi gp flds of
             (flds', unrs) \<Rightarrow> (StructField tag name e' # flds', unr @ unrs)))"

subsection \<open>GetElems\<close>

fun GetTypeSpecs_files ::
    "decl list list \<Rightarrow> (string \<times> expr) list \<times> idents \<Rightarrow> (string \<times> expr) list \<times> idents" where
  "GetTypeSpecs_files [] acc = acc"
| "GetTypeSpecs_files (f # fs) (specs, gi) =
     (case GetTypeSpecs f gi of
        (found, gi') \<Rightarrow> GetTypeSpecs_files fs (specs @ found, gi'))"

fun GenElem_all :: "(string \<times> expr) list \<Rightarrow> processed \<Rightarrow> Elem list \<times> processed" where
  "GenElem_all [] gp = ([], gp)"
| "GenElem_all (ts # specs) gp =
     (case GenElem ts gp of
        (el, gp') \<Rightarrow>
          (case GenElem_all specs gp' of
             (out, gp'') \<Rightarrow> ((case el of None \<Rightarrow> out | Some e \<Rightarrow> e # out), gp'')))"

text \<open>
  \<open>GetElems\<close> after \<open>GetAST\<close> has read the files \<open>fs\<close>, from the tables \<open>(gi, gp)\<close>: the
  elements returned (each as \<open>findUnresolved\<close> left it), the identifiers printed as
  non-local or unresolved, and the two tables afterwards.
\<close>

definition GetElems ::
    "decl list list \<Rightarrow> idents \<times> processed \<Rightarrow> Elem list \<times> string list \<times> idents \<times> processed" where
  "GetElems fs tables =
     (case tables of
        (gi, gp) \<Rightarrow>
          (case GetTypeSpecs_files fs ([], gi) of
             (specs, gi') \<Rightarrow>
               if length specs = 0 then ([], [], gi', gp)
               else
                 (case GenElem_all specs gp of
                    (out, gp') \<Rightarrow>
                      (map (\<lambda>g. fst (findUnresolved gi' gp' g)) out,
                       concat (map (\<lambda>g. snd (findUnresolved gi' gp' g)) out),
                       gi', gp'))))"

section \<open>The encoder templates\<close>

text \<open>
  What \<open>gen/elem_enc.tmpl\<close> renders for an element, as the statements of the generated
  \<open>EncodeMsg\<close> in order: \<open>IfNil body\<close> is \<open>PtrTempl\<close> (write nil for a nil pointer, else
  \<open>body\<close>), \<open>BaseStmt b\<close> the rendering of \<open>BaseTempl\<close> on the base element \<open>b\<close>,
  \<open>WriteMapHeaderLen\<close> and \<open>WriteArrayHeaderLen\<close> the headers of \<open>MapTempl\<close> and
  \<open>SliceTempl\<close> (the length is the run-time \<open>len\<close>), \<open>WriteArrayHeaderSize\<close> the
  header of \<open>ArrayTempl\<close>, \<open>RangeMap\<close> and \<open>Range\<close> their loops, and \<open>WriteArrayHeader n\<close>,
  \<open>WriteMapHeader n\<close> and \<open>WriteString tag\<close> the statements of \<open>StructTempl\<close>, where
  \<open>n\<close> is \<open>{{len .Fields}}\<close>.
\<close>

datatype stmt =
    IfNil "stmt list"
  | BaseStmt BaseElem
  | WriteMapHeaderLen
  | RangeMap "stmt list"
  | WriteArrayHeaderLen
  | WriteArrayHeaderSize string
  | Range "stmt list"
  | WriteArrayHeader nat
  | WriteMapHeader nat
  | WriteString string

fun ElemTempl :: "Elem \<Rightarrow> stmt list"
and StructTempl_tuple :: "StructField list \<Rightarrow> stmt list"
and StructTempl_map :: "StructField list \<Rightarrow> stmt list" where
  "ElemTempl (Ptr v) = [IfNil (ElemTempl v)]"
| "ElemTempl (Slice els) = [WriteArrayHeaderLen, Range (ElemTempl els)]"
| "ElemTempl (Struct nm flds asTuple) =
     (if asTuple then WriteArrayHeader (length flds) # StructTempl_tuple flds
      else WriteMapHeader (length flds) # StructTempl_map flds)"
| "ElemTempl (Base b) = [BaseStmt b]"
| "ElemTempl (Map v) = [WriteMapHeaderLen, RangeMap (ElemTempl v)]"
| "ElemTempl (Array sz els) = [WriteArrayHeaderSize sz, Range (ElemTempl els)]"
| "StructTempl_tuple [] = []"
| "StructTempl_tuple (StructField tag name e # flds) = ElemTempl e @ StructTempl_tuple flds"
| "StructTempl_map [] = []"
| "StructTempl_map (StructField tag name e # flds) =
     WriteString tag # ElemTempl e @ StructTempl_map flds"

section \<open>Predicates on trees and type expressions\<close>

text \<open>
  \<open>ptrToPtr g\<close>: some \<open>Ptr\<close> node of the tree \<open>g\<close> has a \<open>Ptr\<close> node as its value.
  \<open>starOfStar e\<close>: the type expression \<open>e\<close> has, where \<open>parseExpr\<close> descends (element,
  map value and field types), a pointer type whose operand is a pointer type (\<open>**T\<close>).
\<close>

fun isPtr :: "Elem \<Rightarrow> bool" where
  "isPtr (Ptr v) = True"
| "isPtr e = False"

fun ptrToPtr :: "Elem \<Rightarrow> bool"
and ptrToPtr_fields :: "StructField list \<Rightarrow> bool" where
  "ptrToPtr (Ptr v) = (isPtr v \<or> ptrToPtr v)"
| "ptrToPtr (Slice els) = ptrToPtr els"
| "ptrToPtr (Array sz els) = ptrToPtr els"
| "ptrToPtr (Map v) = ptrToPtr v"
| "ptrToPtr (Struct nm flds asTuple) = ptrToPtr_fields flds"
| "ptrToPtr (Base b) = False"
| "ptrToPtr_fields [] = False"
| "ptrToPtr_fields (StructField tag name e # flds) = (ptrToPtr e \<or> ptrToPtr_fields flds)"

fun isStar :: "expr \<Rightarrow> bool" where
  "isStar (StarExpr x) = True"
| "isStar e = False"

fun starOfStar :: "expr \<Rightarrow> bool"
and starOfStar_fields :: "field list \<Rightarrow> bool" where
  "starOfStar (StarExpr x) = (isStar x \<or> starOfStar x)"
| "starOfStar (ArrayType len elt) = starOfStar elt"
| "starOfStar (MapType k v) = starOfStar v"
| "starOfStar (StructType fl) = starOfStar_fields fl"
| "starOfStar (IdentExpr name) = False"
| "starOfStar (BasicLit v) = False"
| "starOfStar (SelectorExpr x sel) = False"
| "starOfStar (InterfaceType n) = False"
| "starOfStar OtherExpr = False"
| "starOfStar_fields [] = False"
| "starOfStar_fields (AstField names t tag # fl) = (starOfStar t \<or> starOfStar_fields fl)"

text \<open>
  \<open>leftProcessed gp g\<close>: the tree \<open>g\<close> contains, anywhere, a base node with
  \<open>Value = IDENT\<close> whose \<open>Ident\<close> is in \<open>gp\<close> and which is not marked \<open>Convert\<close>.
\<close>

fun leftProcessed :: "processed \<Rightarrow> Elem \<Rightarrow> bool"
and leftProcessed_fields :: "processed \<Rightarrow> StructField list \<Rightarrow> bool" where
  "leftProcessed gp (Ptr v) = leftProcessed gp v"
| "leftProcessed gp (Slice els) = leftProcessed gp els"
| "leftProcessed gp (Map v) = leftProcessed gp v"
| "leftProcessed gp (Struct nm flds asTuple) = leftProcessed_fields gp flds"
| "leftProcessed gp (Array sz els) = leftProcessed gp els"
| "leftProcessed gp (Base b) = (Value b = IDENT \<and> Ident b \<in> gp \<and> \<not> Convert b)"
| "leftProcessed_fields gp [] = False"
| "leftProcessed_fields gp (StructField tag name e # flds) =
     (leftProcessed gp e \<or> leftProcessed_fields gp flds)"

text \<open>
  \<open>pending gi gp g\<close>: the tree \<open>g\<close> contains, on a path through pointers, slices, map
  values and struct fields only (not below an array), a base node with \<open>Value = IDENT\<close>
  whose \<open>Ident\<close> is outside \<open>gp\<close> and which \<open>gi\<close> maps to a kind other than \<open>IDENT\<close>.
\<close>

fun pending :: "idents \<Rightarrow> processed \<Rightarrow> Elem \<Rightarrow> bool"
and pending_fields :: "idents \<Rightarrow> processed \<Rightarrow> StructField list \<Rightarrow> bool" where
  "pending gi gp (Ptr v) = pending gi gp v"
| "pending gi gp (Slice els) = pending gi gp els"
| "pending gi gp (Map v) = pending gi gp v"
| "pending gi gp (Struct nm flds asTuple) = pending_fields gi gp flds"
| "pending gi gp (Array sz els) = False"
| "pending gi gp (Base b) =
     (Value b = IDENT \<and> Ident b \<notin> gp
      \<and> (case gi (Ident b) of Some tp \<Rightarrow> tp \<noteq> IDENT | None \<Rightarrow> False))"
| "pending_fields gi gp [] = False"
| "pending_fields gi gp (StructField tag name e # flds) =
     (pending gi gp e \<or> pending_fields gi gp flds)"

section \<open>Properties\<close>

lemmas prefix_defs =
  mext8_def mext16_def mext32_def mfixext1_def mfixext2_def mfixext4_def
  mfixext8_def mfixext16_def

lemma replicate_numeral_Cons:
  "replicate (numeral k) x = x # replicate (pred_numeral k) x"
  by (simp add: numeral_eq_Suc)

subsection \<open>The extension codec\<close>

lemma be16: "l < 65536 \<Longrightarrow> (l div 256) mod 256 * 256 + l mod 256 = (l::nat)"
proof -
  assume "l < 65536"
  then have "l div 256 < 256" by simp
  then show ?thesis by simp
qed

lemma be32:
  fixes l :: nat
  assumes "l < 4294967296"
  shows "(l div 16777216) mod 256 * 16777216 + (l div 65536) mod 256 * 65536
           + (l div 256) mod 256 * 256 + l mod 256 = l"
proof -
  define q1 where "q1 = l div 256"
  define q2 where "q2 = q1 div 256"
  define q3 where "q3 = q2 div 256"
  have d2: "l div 65536 = q2"
    unfolding q2_def q1_def by (simp add: div_mult2_eq [symmetric])
  have d3: "l div 16777216 = q3"
    unfolding q3_def q2_def q1_def by (simp add: div_mult2_eq [symmetric])
  from assms have "q3 < 256"
    unfolding d3 [symmetric] by simp
  then have m3: "q3 mod 256 = q3" by simp
  have e1: "l = q1 * 256 + l mod 256" unfolding q1_def by simp
  have e2: "q1 = q2 * 256 + q1 mod 256" unfolding q2_def by simp
  have e3: "q2 = q3 * 256 + q2 mod 256" unfolding q3_def by simp
  have "q3 * 16777216 + q2 mod 256 * 65536 + q1 mod 256 * 256 + l mod 256
          = (((q3 * 256 + q2 mod 256) * 256) + q1 mod 256) * 256 + l mod 256"
    by simp
  also have "\<dots> = l" using e1 e2 e3 by simp
  finally show ?thesis
    unfolding d2 d3 m3 q1_def [symmetric] .
qed

lemma replicate_6_plus:
  "replicate (6 + l) z = z # z # z # z # z # z # replicate l z"
  by (simp add: replicate_add replicate_numeral_Cons)

lemma take_numeral_plus_Cons:
  "take (numeral k + n) (x # xs) = x # take (pred_numeral k + n) xs"
  by (simp add: numeral_eq_Suc)

lemma copy_same_length: "length d = length s \<Longrightarrow> copy d s = s"
  by (simp add: copy_def)

lemmas AppendExtension_simps =
  AppendExtension_def ensure_def ExtensionPrefixSize_def replicate_6_plus put_def
  big_PutUint16_def big_PutUint32_def slice_def
  store_def MarshalBinaryTo_def copy_same_length MaxUint8_def MaxUint16_def
  list_update_append Len_def Let_def take_numeral_plus_Cons

lemma AppendExtension_empty:
  assumes "Len e = 0"
  shows "AppendExtension b e = Some (b @ [mext8, 0, ExtensionType e], None)"
  using assms by (simp add: AppendExtension_simps)

lemma AppendExtension_ext8:
  assumes "Len e \<noteq> 0" "Len e \<notin> {1, 2, 4, 8, 16}" "Len e < 255"
  shows "AppendExtension b e
           = Some (b @ [mext8, of_nat (Len e), ExtensionType e] @ Data e, None)"
  using assms by (simp add: AppendExtension_simps)

lemma AppendExtension_ext16:
  assumes "255 \<le> Len e" "Len e < 65535"
  shows "AppendExtension b e
           = Some (b @ [mext16, of_nat (Len e div 2 ^ 8), of_nat (Len e), ExtensionType e]
                     @ Data e, None)"
proof -
  from assms have "Data e \<noteq> []" by (auto simp: Len_def)
  with assms show ?thesis by (simp add: AppendExtension_simps)
qed

lemma AppendExtension_ext32:
  assumes "65535 \<le> Len e"
  shows "AppendExtension b e
           = Some (b @ [mext32, of_nat (Len e mod 2 ^ 32 div 2 ^ 24),
                        of_nat (Len e mod 2 ^ 32 div 2 ^ 16),
                        of_nat (Len e mod 2 ^ 32 div 2 ^ 8), of_nat (Len e mod 2 ^ 32),
                        ExtensionType e]
                     @ Data e, None)"
proof -
  from assms have "Data e \<noteq> []" by (auto simp: Len_def)
  with assms show ?thesis by (simp add: AppendExtension_simps)
qed

lemma AppendExtension_fixext:
  assumes "Len e \<in> {1, 2, 4, 8, 16}"
  shows "AppendExtension b e
           = Some (b @ [(if Len e = 1 then mfixext1 else if Len e = 2 then mfixext2
                         else if Len e = 4 then mfixext4 else if Len e = 8 then mfixext8
                         else mfixext16), ExtensionType e,
                        mext8, of_nat (Len e), ExtensionType e] @ Data e, None)"
  using assms by (auto simp add: AppendExtension_simps)


lemma ReadExtensionBytes_empty:
  "ReadExtensionBytes [mext8, 0, t] \<lparr>Type = t, Data = d0\<rparr> = ([], None, \<lparr>Type = t, Data = []\<rparr>)"
  by (simp add: ReadExtensionBytes_def UnmarshalBinary_def copy_def prefix_defs)

lemma ReadExtensionBytes_ext8:
  assumes "d \<noteq> []" "length d < 256"
  shows "ReadExtensionBytes (mext8 # of_nat (length d) # t # d) \<lparr>Type = t, Data = d0\<rparr>
           = ([], None, \<lparr>Type = t, Data = d\<rparr>)"
  using assms
  by (simp add: ReadExtensionBytes_def UnmarshalBinary_def copy_same_length ExtensionType_def
      prefix_defs unat_of_nat Let_def)

lemma ReadExtensionBytes_ext16:
  assumes "length d < 65536"
  shows "ReadExtensionBytes
           (mext16 # of_nat (length d div 2 ^ 8) # of_nat (length d) # t # d)
           \<lparr>Type = t, Data = d0\<rparr>
           = ([], None, \<lparr>Type = t, Data = d\<rparr>)"
proof -
  have "big_Uint16 (mext16 # of_nat (length d div 2 ^ 8) # of_nat (length d) # t # d) 1
          = length d"
    using be16 [OF assms] by (simp add: big_Uint16_def unat_of_nat)
  then show ?thesis
    by (simp add: ReadExtensionBytes_def UnmarshalBinary_def copy_same_length
        ExtensionType_def prefix_defs Let_def)
qed

lemma ReadExtensionBytes_ext32:
  assumes "length d < 4294967296"
  shows "ReadExtensionBytes
           (mext32 # of_nat (length d div 2 ^ 24) # of_nat (length d div 2 ^ 16)
              # of_nat (length d div 2 ^ 8) # of_nat (length d) # t # d)
           \<lparr>Type = t, Data = d0\<rparr>
           = ([], None, \<lparr>Type = t, Data = d\<rparr>)"
proof -
  have "big_Uint32 (mext32 # of_nat (length d div 2 ^ 24) # of_nat (length d div 2 ^ 16)
              # of_nat (length d div 2 ^ 8) # of_nat (length d) # t # d) 1
          = length d"
  proof -
    from assms have "length d div 16777216 < 256" by simp
    then have "length d div 16777216 mod 256 = length d div 16777216" by simp
    with be32 [OF assms] show ?thesis
      by (simp add: big_Uint32_def unat_of_nat)
  qed
  then show ?thesis
    by (simp add: ReadExtensionBytes_def UnmarshalBinary_def copy_same_length
        ExtensionType_def prefix_defs Let_def)
qed

lemma AppendExtension_ReadExtensionBytes_roundtrip:
  assumes nofix: "Len e \<notin> {1, 2, 4, 8, 16}" and small: "Len e < 2 ^ 32"
  shows "\<exists>bs. AppendExtension [] e = Some (bs, None)
           \<and> ReadExtensionBytes bs \<lparr>Type = ExtensionType e, Data = d0\<rparr>
               = ([], None, \<lparr>Type = ExtensionType e, Data = Data e\<rparr>)"
proof -
  consider (empty) "Len e = 0" | (e8) "Len e \<noteq> 0" "Len e < 255"
    | (e16) "255 \<le> Len e" "Len e < 65535" | (e32) "65535 \<le> Len e"
    by linarith
  then show ?thesis
  proof cases
    case empty
    then show ?thesis
      using AppendExtension_empty [of e "[]"] ReadExtensionBytes_empty [of "ExtensionType e" d0]
      by (simp add: Len_def)
  next
    case e8
    then show ?thesis
      using AppendExtension_ext8 [OF e8(1) nofix e8(2), of "[]"]
        ReadExtensionBytes_ext8 [of "Data e" "ExtensionType e" d0]
      by (simp add: Len_def)
  next
    case e16
    then show ?thesis
      using AppendExtension_ext16 [OF e16, of "[]"]
        ReadExtensionBytes_ext16 [of "Data e" "ExtensionType e" d0]
      by (simp add: Len_def)
  next
    case e32
    then show ?thesis
      using AppendExtension_ext32 [OF e32, of "[]"] small
        ReadExtensionBytes_ext32 [of "Data e" "ExtensionType e" d0]
      by (simp add: Len_def)
  qed
qed

lemma ReadExtensionBytes_type_mismatch:
  assumes len: "3 \<le> length b"
    and peek: "peekExtension b = Some (Inr typ)"
    and neq: "typ \<noteq> ExtensionType e"
    and nz: "\<not> (b ! 0 = mext8 \<and> b ! 1 = 0)"
  shows "ReadExtensionBytes b e = (b, Some (Msgp (ExtensionTypeError typ (ExtensionType e))), e)"
proof -
  from len obtain b0 b1 b2 bs where b: "b = b0 # b1 # b2 # bs"
    by (cases b; cases "tl b"; cases "tl (tl b)") auto
  consider (fixext) "b0 = mfixext1 \<or> b0 = mfixext2 \<or> b0 = mfixext4 \<or> b0 = mfixext8 \<or> b0 = mfixext16"
    | (e8) "b0 = mext8" | (e16) "b0 = mext16" | (e32) "b0 = mext32"
    | (other) "b0 \<noteq> mfixext1" "b0 \<noteq> mfixext2" "b0 \<noteq> mfixext4" "b0 \<noteq> mfixext8"
        "b0 \<noteq> mfixext16" "b0 \<noteq> mext8" "b0 \<noteq> mext16" "b0 \<noteq> mext32"
    by blast
  then show ?thesis
  proof cases
    case fixext
    with peek neq show ?thesis
      unfolding b
      by (elim disjE) (simp_all add: ReadExtensionBytes_def peekExtension_def index_def errExt_def prefix_defs)
  next
    case e8
    with peek neq nz show ?thesis
      unfolding b
      by (simp add: ReadExtensionBytes_def peekExtension_def index_def errExt_def prefix_defs unat_eq_0)
  next
    case e16
    with peek neq show ?thesis
      unfolding b
      by (simp add: ReadExtensionBytes_def peekExtension_def index_def errExt_def prefix_defs split: if_splits)
  next
    case e32
    with peek neq show ?thesis
      unfolding b
      by (simp add: ReadExtensionBytes_def peekExtension_def index_def errExt_def prefix_defs split: if_splits)
  next
    case other
    with peek show ?thesis
      unfolding b
      by (simp add: peekExtension_def index_def)
  qed
qed

lemma peekExtension_ext32:
  "peekExtension (mext32 # bs) =
     (if length bs < 4 then Some (Inl ErrShortBytes)
      else if length bs = 4 then None
      else Some (Inr (bs ! 4)))"
  by (auto simp: peekExtension_def index_def prefix_defs)

text \<open>
  C1. Round trip of an extension through the encoders and the decoders. It fails for
  \<open>AppendExtension\<close> on a payload of one byte (as for 2, 4, 8 and 16): after the fixext
  header the second \<open>switch\<close> writes an ext8 header as well, so \<open>ReadExtensionBytes\<close>,
  given the same type id, succeeds with the payload \<open>[0xc7]\<close> (the stray ext8 prefix)
  in place of \<open>[0x61]\<close> and leaves three bytes unread. (For every other length below
  \<open>2^32\<close> the round trip holds: \<open>AppendExtension_ReadExtensionBytes_roundtrip\<close>.)
\<close>

theorem C1_AppendExtension_fixext_roundtrip_breaks:
  "AppendExtension [] \<lparr>Type = 10, Data = [0x61]\<rparr>
     = Some ([0xd4, 10, 0xc7, 1, 10, 0x61], None)
   \<and> ReadExtensionBytes [0xd4, 10, 0xc7, 1, 10, 0x61] \<lparr>Type = 10, Data = []\<rparr>
     = ([1, 10, 0x61], None, \<lparr>Type = 10, Data = [0xc7]\<rparr>)"
proof
  show "AppendExtension [] \<lparr>Type = 10, Data = [0x61]\<rparr>
          = Some ([0xd4, 10, 0xc7, 1, 10, 0x61], None)"
    by (simp add: AppendExtension_def Len_def ExtensionType_def ensure_def
        ExtensionPrefixSize_def put_def slice_def store_def MarshalBinaryTo_def copy_def
        MaxUint8_def MaxUint16_def prefix_defs replicate_numeral_Cons)
  show "ReadExtensionBytes [0xd4, 10, 0xc7, 1, 10, 0x61] \<lparr>Type = 10, Data = []\<rparr>
          = ([1, 10, 0x61], None, \<lparr>Type = 10, Data = [0xc7]\<rparr>)"
    by (simp add: ReadExtensionBytes_def ExtensionType_def UnmarshalBinary_def copy_def
        errExt_def prefix_defs)
qed

text \<open>
  C2. One header, and the shortest prefix. \<open>AppendExtension\<close> on a payload of one byte
  emits two headers (fixext1 and type, then ext8, length and type) before the payload.
  Both encoders compare the length with \<open>math.MaxUint8\<close> and \<open>math.MaxUint16\<close> by
  \<open><\<close>, so a payload of 255 bytes, which is below \<open>2^8\<close>, gets the ext16 header from
  \<open>AppendExtension\<close> and from \<open>WriteExtension\<close>. (The lemmas \<open>AppendExtension_empty\<close>,
  \<open>_fixext\<close>, \<open>_ext8\<close>, \<open>_ext16\<close> and \<open>_ext32\<close> give the output of \<open>AppendExtension\<close>
  for every length.)
\<close>

theorem C2_encoders_header_choice:
  "AppendExtension [] \<lparr>Type = 10, Data = [0x61]\<rparr>
     = Some ([mfixext1, 10, mext8, 1, 10, 0x61], None)
   \<and> AppendExtension [] \<lparr>Type = 10, Data = replicate 255 0\<rparr>
     = Some ([mext16, 0, 0xff, 10] @ replicate 255 0, None)
   \<and> written 16 \<lparr>Type = 10, Data = replicate 255 0\<rparr>
     = Some (None, [mext16, 0, 0xff, 10] @ replicate 255 0)"
proof (intro conjI)
  show "AppendExtension [] \<lparr>Type = 10, Data = [0x61]\<rparr>
          = Some ([mfixext1, 10, mext8, 1, 10, 0x61], None)"
    by (simp add: AppendExtension_def Len_def ExtensionType_def ensure_def
        ExtensionPrefixSize_def put_def slice_def store_def MarshalBinaryTo_def copy_def
        MaxUint8_def MaxUint16_def prefix_defs replicate_numeral_Cons)
  show "AppendExtension [] \<lparr>Type = 10, Data = replicate 255 0\<rparr>
          = Some ([mext16, 0, 0xff, 10] @ replicate 255 0, None)"
    by (simp add: AppendExtension_def Len_def ExtensionType_def ensure_def
        ExtensionPrefixSize_def put_def big_PutUint16_def slice_def store_def
        MarshalBinaryTo_def copy_def MaxUint8_def MaxUint16_def prefix_defs
        replicate_numeral_Cons)
  show "written 16 \<lparr>Type = 10, Data = replicate 255 0\<rparr>
          = Some (None, [mext16, 0, 0xff, 10] @ replicate 255 0)"
    by (simp add: written_def WriteExtension_def emptyWriter_def require_def flush_def
        Flush_def Len_def ExtensionType_def put_def big_PutUint16_def slice_def store_def
        MarshalBinaryTo_def copy_def MaxUint8_def MaxUint16_def prefix_defs
        replicate_numeral_Cons)
qed

text \<open>
  C3. A type id that differs from the wire's must give \<open>ExtensionTypeError\<close> without a
  call of \<open>UnmarshalBinary\<close>. \<open>ReadExtensionBytes\<close> does so for an ext8 object with a
  payload (second equation), but for the ext8 object of length zero it returns from
  inside the \<open>switch\<close>, before the comparison of the type ids: on the wire type 10 and
  an extension of type 11 it reports no error and has called \<open>UnmarshalBinary\<close> with
  the empty slice, which empties the extension's data. (For every other extension
  object the error is returned and the extension is untouched:
  \<open>ReadExtensionBytes_type_mismatch\<close>.)
\<close>

theorem C3_ReadExtensionBytes_ext8_empty_skips_type_check:
  "ReadExtensionBytes [mext8, 0, 10] \<lparr>Type = 11, Data = [1, 2, 3]\<rparr>
     = ([], None, \<lparr>Type = 11, Data = []\<rparr>)
   \<and> ReadExtensionBytes [mext8, 1, 10, 7] \<lparr>Type = 11, Data = [1, 2, 3]\<rparr>
     = ([mext8, 1, 10, 7], Some (Msgp (ExtensionTypeError 10 11)),
        \<lparr>Type = 11, Data = [1, 2, 3]\<rparr>)"
  by (simp add: ReadExtensionBytes_def ExtensionType_def UnmarshalBinary_def copy_def
      errExt_def prefix_defs)

subsection \<open>The two passes\<close>

text \<open>What pass 1 records for the declaration \<open>type name t\<close>, by the shape of \<open>t\<close>.\<close>

lemma recordIdent_kinds:
  "recordIdent name (StructType fl) gi name = Some IDENT"
  "recordIdent name (IdentExpr x) gi name = Some (pullIdent x)"
  "recordIdent name (ArrayType len (IdentExpr ''byte'')) gi name = Some Bytes"
  "elt \<noteq> IdentExpr ''byte'' \<Longrightarrow> recordIdent name (ArrayType len elt) gi name = Some IDENT"
  "recordIdent name (StarExpr t) gi name = Some IDENT"
  "recordIdent name (MapType k v) gi name = Some IDENT"
  by (simp_all, cases elt, simp_all)

text \<open>The resolver on a base node that names an alias of a known base, not processed.\<close>

lemma findUnresolved_alias:
  "Value b = IDENT \<Longrightarrow> gi (Ident b) = Some tp \<Longrightarrow> tp \<noteq> IDENT \<Longrightarrow> Ident b \<notin> gp \<Longrightarrow>
   findUnresolved gi gp (Base b)
     = (Base \<lparr>Value = tp, Ident = Ident b, Convert = True,
               ShimToBase = [], ShimFromBase = []\<rparr>, [])"
  by (simp add: baseOf_def)

text \<open>
  C4. Pass 1 and arrays of bytes. \<open>GetTypeSpecs\<close> records \<open>Bytes\<close> for the declaration
  \<open>type Hash [4]byte\<close>, an array and not a byte slice: its \<open>*ast.ArrayType\<close> case never
  looks at \<open>Len\<close>. \<open>parseExpr\<close> does (\<open>arr.Len == nil\<close>) and makes the same type
  expression an \<open>Array\<close> of \<open>Byte\<close>.
\<close>

theorem C4_GetTypeSpecs_byte_array_recorded_as_Bytes:
  "snd (GetTypeSpecs
          [GenDecl [TypeSpec ''Hash'' (ArrayType (Some (BasicLit ''4'')) (IdentExpr ''byte''))]]
          Map.empty) ''Hash'' = Some Bytes
   \<and> parseExpr (ArrayType (Some (BasicLit ''4'')) (IdentExpr ''byte''))
       = Some (Array ''4'' (Base (baseOf Byte)))"
  by (simp add: GetTypeSpecs_def pullIdent_def baseOf_def)

text \<open>
  C5. Resolution of a named alias. For \<open>type Celsius float64\<close> and
  \<open>type Thermo struct{ T Celsius }\<close> the field element becomes
  \<open>Base{Float64, Ident: "Celsius", Convert: true}\<close> and nothing is reported (first
  equation). With the field \<open>T [3]Celsius\<close> the base node below the array has the same
  \<open>Ident\<close>, known to \<open>globalIdents\<close> as \<open>Float64\<close> and not processed, and stays
  \<open>Base{IDENT}\<close>, not converted; nothing is reported either (second equation).
\<close>

theorem C5_findUnresolved_skips_array_elements:
  "(case GetElems
           [[GenDecl [TypeSpec ''Celsius'' (IdentExpr ''float64'')],
             GenDecl [TypeSpec ''Thermo''
               (StructType [AstField [''T''] (IdentExpr ''Celsius'') None])]]]
           (Map.empty, {})
    of (out, unr, gi, gp) \<Rightarrow> (out, unr, gi ''Celsius'', ''Celsius'' \<in> gp))
   = ([Ptr (Struct ''Thermo''
         [StructField ''T'' ''T''
            (Base \<lparr>Value = Float64, Ident = ''Celsius'', Convert = True,
                   ShimToBase = [], ShimFromBase = []\<rparr>)] False)],
      [], Some Float64, False)
   \<and> (case GetElems
           [[GenDecl [TypeSpec ''Celsius'' (IdentExpr ''float64'')],
             GenDecl [TypeSpec ''Grid''
               (StructType [AstField [''T'']
                  (ArrayType (Some (BasicLit ''3'')) (IdentExpr ''Celsius'')) None])]]]
           (Map.empty, {})
    of (out, unr, gi, gp) \<Rightarrow> (out, unr, gi ''Celsius'', ''Celsius'' \<in> gp))
   = ([Ptr (Struct ''Grid''
         [StructField ''T'' ''T''
            (Array ''3''
               (Base \<lparr>Value = IDENT, Ident = ''Celsius'', Convert = False,
                      ShimToBase = [], ShimFromBase = []\<rparr>))] False)],
      [], Some Float64, False)"
  by (simp add: GetElems_def GetTypeSpecs_def parseField_def fieldTagged_def fieldRest_def
      pullIdent_def baseOf_def)

subsection \<open>Wire keys of fields\<close>

lemma parseFieldList_append:
  "parseFieldList (fs @ gs) = parseFieldList fs @ parseFieldList gs"
proof (induction fs)
  case Nil
  show ?case by simp
next
  case (Cons f fs)
  then show ?case by (cases f) simp
qed

lemma Split_no_sep: "sep \<notin> set s \<Longrightarrow> Split s sep = [s]"
  by (induction s) auto

text \<open>
  A field declared on its own: with one name, or embedded (no name), in which case
  \<open>embedded\<close> makes the name from the type.
\<close>

lemma parseField_single:
  "names = [name] \<or> names = [] \<and> embedded t = name \<and> name \<noteq> [] \<Longrightarrow>
   parseField names t tag el = fieldTagged name tag el"
  by (auto simp: parseField_def)

lemma field_untagged:
  "names = [name] \<or> names = [] \<and> embedded t = name \<and> name \<noteq> [] \<Longrightarrow>
   parseExpr t = Some el \<Longrightarrow> tag = None \<or> tag = Some [] \<Longrightarrow>
   parseFieldList (fs @ AstField names t tag # gs)
     = parseFieldList fs @ StructField name name el # parseFieldList gs"
  by (auto simp: parseFieldList_append parseField_single fieldTagged_def fieldRest_def)

lemma field_tagged:
  "names = [name] \<or> names = [] \<and> embedded t = name \<and> name \<noteq> [] \<Longrightarrow>
   parseExpr t = Some el \<Longrightarrow> key \<noteq> [] \<Longrightarrow> key \<noteq> ''-'' \<Longrightarrow> CHR '','' \<notin> set key \<Longrightarrow>
   parseFieldList (fs @ AstField names t (Some key) # gs)
     = parseFieldList fs @ StructField key name el # parseFieldList gs"
  by (simp add: parseFieldList_append parseField_single fieldTagged_def fieldRest_def
      Split_no_sep)

lemma field_dash:
  "names = [name] \<or> names = [] \<and> embedded t = name \<and> name \<noteq> [] \<Longrightarrow>
   parseFieldList (fs @ AstField names t (Some ''-'') # gs)
     = parseFieldList fs @ parseFieldList gs"
  by (simp add: parseFieldList_append parseField_single fieldTagged_def fieldRest_def)

lemma field_multi:
  "parseExpr t = Some el \<Longrightarrow> 2 \<le> length names \<Longrightarrow>
   parseFieldList (fs @ AstField names t tag # gs)
     = parseFieldList fs @ map (\<lambda>nm. StructField nm nm el) names @ parseFieldList gs"
  by (cases names; cases "tl names") (auto simp: parseFieldList_append parseField_def)

lemma Foo_ingest:
  "GetElems
     [[GenDecl [TypeSpec ''Foo'' (StructType
         [AstField [''Bar''] (IdentExpr ''int'') (Some ''b''),
          AstField [''Skip''] (IdentExpr ''string'') (Some ''-''),
          AstField [''Keep''] (IdentExpr ''bool'') None])]]]
     (Map.empty, {})
   = ([Ptr (Struct ''Foo''
         [StructField ''b'' ''Bar'' (Base (baseOf IntBase)),
          StructField ''Keep'' ''Keep'' (Base (baseOf Bool))] False)],
      [], Map.empty(''Foo'' \<mapsto> IDENT), {''Foo''})"
  by (simp add: GetElems_def GetTypeSpecs_def parseField_def fieldTagged_def fieldRest_def
      pullIdent_def baseOf_def)

text \<open>
  C6, as stated, fails on a declaration with several names: the fields of
  \<open>X, Y int\<close> tagged \<open>msg:"k"\<close> do not get the wire key \<open>k\<close>; each name is its own
  wire key.
\<close>

theorem C6_counterexample_multi_name_tag_ignored:
  "map FieldTag (parseFieldList [AstField [''X'', ''Y''] (IdentExpr ''int'') (Some ''k'')])
     = [''X'', ''Y'']"
  by (simp add: parseField_def)

text \<open>
  C6, amended. In any record, take a field declared on its own: with a single name, or
  embedded, its name then being its type's. If it is tagged \<open>msg:"-"\<close> it is omitted.
  If the parser supports its type (\<open>parseExpr\<close> returns \<open>el\<close>): without a tag, or with
  a tag that has no \<open>msg\<close> value, its wire key is its field name; with \<open>msg:"key"\<close>,
  \<open>key\<close> not empty, not \<open>-\<close> and without a comma, its wire key is \<open>key\<close>. A
  declaration with several names, tagged or not (the tag \<open>msg:"-"\<close> apart, of which
  nothing is said here), yields one field per name, whose wire key is the name. The
  record \<open>Foo\<close> with \<open>Bar int `msg:"b"`\<close>, \<open>Skip string `msg:"-"`\<close> and \<open>Keep bool\<close> gives
  one \<open>Struct\<close> with the two fields tagged \<open>b\<close> and \<open>Keep\<close>, and the encoder rendered
  for it writes a map header of 2 entries.
\<close>

theorem C6_wire_keys:
  "(names = [name] \<or> names = [] \<and> embedded t = name \<and> name \<noteq> [] \<longrightarrow>
      parseFieldList (fs @ AstField names t (Some ''-'') # gs)
        = parseFieldList fs @ parseFieldList gs
      \<and> (parseExpr t = Some el \<longrightarrow>
           parseFieldList (fs @ AstField names t None # gs)
             = parseFieldList fs @ StructField name name el # parseFieldList gs
           \<and> parseFieldList (fs @ AstField names t (Some []) # gs)
             = parseFieldList fs @ StructField name name el # parseFieldList gs
           \<and> (key \<noteq> [] \<and> key \<noteq> ''-'' \<and> CHR '','' \<notin> set key \<longrightarrow>
                parseFieldList (fs @ AstField names t (Some key) # gs)
                  = parseFieldList fs @ StructField key name el # parseFieldList gs)))
   \<and> (parseExpr t' = Some el' \<and> 2 \<le> length names' \<and> tag' \<noteq> Some ''-'' \<longrightarrow>
        parseFieldList (fs @ AstField names' t' tag' # gs)
          = parseFieldList fs @ map (\<lambda>nm. StructField nm nm el') names' @ parseFieldList gs)
   \<and> fst (GetElems
        [[GenDecl [TypeSpec ''Foo'' (StructType
            [AstField [''Bar''] (IdentExpr ''int'') (Some ''b''),
             AstField [''Skip''] (IdentExpr ''string'') (Some ''-''),
             AstField [''Keep''] (IdentExpr ''bool'') None])]]]
        (Map.empty, {}))
       = [Ptr (Struct ''Foo''
            [StructField ''b'' ''Bar'' (Base (baseOf IntBase)),
             StructField ''Keep'' ''Keep'' (Base (baseOf Bool))] False)]
   \<and> ElemTempl (Ptr (Struct ''Foo''
            [StructField ''b'' ''Bar'' (Base (baseOf IntBase)),
             StructField ''Keep'' ''Keep'' (Base (baseOf Bool))] False))
       = [IfNil [WriteMapHeader 2,
                 WriteString ''b'', BaseStmt (baseOf IntBase),
                 WriteString ''Keep'', BaseStmt (baseOf Bool)]]"
proof (intro conjI impI)
  assume single: "names = [name] \<or> names = [] \<and> embedded t = name \<and> name \<noteq> []"
  show "parseFieldList (fs @ AstField names t (Some ''-'') # gs)
          = parseFieldList fs @ parseFieldList gs"
    by (rule field_dash [OF single])
  assume el: "parseExpr t = Some el"
  show "parseFieldList (fs @ AstField names t None # gs)
          = parseFieldList fs @ StructField name name el # parseFieldList gs"
    by (rule field_untagged [OF single el]) simp
  show "parseFieldList (fs @ AstField names t (Some []) # gs)
          = parseFieldList fs @ StructField name name el # parseFieldList gs"
    by (rule field_untagged [OF single el]) simp
  show "parseFieldList (fs @ AstField names t (Some key) # gs)
          = parseFieldList fs @ StructField key name el # parseFieldList gs"
    if "key \<noteq> [] \<and> key \<noteq> ''-'' \<and> CHR '','' \<notin> set key"
    using that by (simp add: field_tagged [OF single el])
next
  assume "parseExpr t' = Some el' \<and> 2 \<le> length names' \<and> tag' \<noteq> Some ''-''"
  then show "parseFieldList (fs @ AstField names' t' tag' # gs)
          = parseFieldList fs @ map (\<lambda>nm. StructField nm nm el') names' @ parseFieldList gs"
    by (simp add: field_multi)
next
  show "fst (GetElems
        [[GenDecl [TypeSpec ''Foo'' (StructType
            [AstField [''Bar''] (IdentExpr ''int'') (Some ''b''),
             AstField [''Skip''] (IdentExpr ''string'') (Some ''-''),
             AstField [''Keep''] (IdentExpr ''bool'') None])]]]
        (Map.empty, {}))
       = [Ptr (Struct ''Foo''
            [StructField ''b'' ''Bar'' (Base (baseOf IntBase)),
             StructField ''Keep'' ''Keep'' (Base (baseOf Bool))] False)]"
    by (simp add: Foo_ingest)
next
  show "ElemTempl (Ptr (Struct ''Foo''
            [StructField ''b'' ''Bar'' (Base (baseOf IntBase)),
             StructField ''Keep'' ''Keep'' (Base (baseOf Bool))] False))
       = [IfNil [WriteMapHeader 2,
                 WriteString ''b'', BaseStmt (baseOf IntBase),
                 WriteString ''Keep'', BaseStmt (baseOf Bool)]]"
    by simp
qed

theorem C6_wire_keys_witness:
  "[''Keep''] = [''Keep'']
   \<and> parseFieldList ([] @ AstField [''Keep''] (IdentExpr ''int'') (Some ''-'') # []) = []
   \<and> parseExpr (IdentExpr ''int'') = Some (Base (baseOf IntBase))
   \<and> parseFieldList ([] @ AstField [''Keep''] (IdentExpr ''int'') None # [])
       = [StructField ''Keep'' ''Keep'' (Base (baseOf IntBase))]
   \<and> parseFieldList ([] @ AstField [''Keep''] (IdentExpr ''int'') (Some []) # [])
       = [StructField ''Keep'' ''Keep'' (Base (baseOf IntBase))]
   \<and> ''b'' \<noteq> [] \<and> ''b'' \<noteq> ''-'' \<and> CHR '','' \<notin> set ''b''
   \<and> parseFieldList ([] @ AstField [''Keep''] (IdentExpr ''int'') (Some ''b'') # [])
       = [StructField ''b'' ''Keep'' (Base (baseOf IntBase))]
   \<and> parseExpr (IdentExpr ''bool'') = Some (Base (baseOf Bool))
   \<and> 2 \<le> length [''X'', ''Y''] \<and> Some ''k'' \<noteq> Some ''-''
   \<and> parseFieldList ([] @ AstField [''X'', ''Y''] (IdentExpr ''bool'') (Some ''k'') # [])
       = [StructField ''X'' ''X'' (Base (baseOf Bool)),
          StructField ''Y'' ''Y'' (Base (baseOf Bool))]"
  using C6_wire_keys
    [where names = "[''Keep'']" and name = "''Keep''" and t = "IdentExpr ''int''"
       and fs = "[]" and gs = "[]" and el = "Base (baseOf IntBase)" and key = "''b''"
       and t' = "IdentExpr ''bool''" and el' = "Base (baseOf Bool)"
       and names' = "[''X'', ''Y'']" and tag' = "Some ''k''"]
  by (simp add: pullIdent_def baseOf_def)

subsection \<open>Pointers to pointers\<close>

lemma parseExpr_isPtr: "parseExpr e = Some g \<Longrightarrow> isPtr g \<Longrightarrow> isStar e"
  by (cases e) (auto split: option.splits expr.splits if_splits simp: Let_def)

lemma ptrToPtr_fields_Cons:
  "ptrToPtr_fields (f # fs) = (ptrToPtr (FieldElem f) \<or> ptrToPtr_fields fs)"
  by (cases f) simp

lemma ptrToPtr_fields_append:
  "ptrToPtr_fields (xs @ ys) = (ptrToPtr_fields xs \<or> ptrToPtr_fields ys)"
  by (induction xs) (auto simp: ptrToPtr_fields_Cons)

lemma asExtension_ptrToPtr: "asExtension e = Some e' \<Longrightarrow> ptrToPtr e' = ptrToPtr e"
  by (induction e rule: asExtension.induct) auto

lemma ptrToPtr_fields_map:
  "ptrToPtr_fields (map (\<lambda>nm. StructField nm nm e) names) \<Longrightarrow> ptrToPtr e"
  by (induction names) auto

lemma fieldRest_ptrToPtr:
  "ptrToPtr_fields (fieldRest fieldName fieldTag flag el) \<Longrightarrow> \<exists>e. el = Some e \<and> ptrToPtr e"
  by (auto simp: fieldRest_def Let_def asExtension_ptrToPtr split: if_splits option.splits)

lemma fieldTagged_ptrToPtr:
  "ptrToPtr_fields (fieldTagged fieldName tag el) \<Longrightarrow> \<exists>e. el = Some e \<and> ptrToPtr e"
  by (auto simp: fieldTagged_def Let_def split: option.splits if_splits prod.splits
      dest: fieldRest_ptrToPtr)

lemma parseField_ptrToPtr:
  "ptrToPtr_fields (parseField names t tag el) \<Longrightarrow> \<exists>e. el = Some e \<and> ptrToPtr e"
  by (auto simp: parseField_def split: list.splits option.splits if_splits
      dest: fieldTagged_ptrToPtr ptrToPtr_fields_map)

lemma parse_no_ptrToPtr:
  "\<forall>g. parseExpr e = Some g \<longrightarrow> \<not> starOfStar e \<longrightarrow> \<not> ptrToPtr g"
  "\<not> starOfStar_fields fl \<longrightarrow> \<not> ptrToPtr_fields (parseFieldList fl)"
proof (induction e and fl rule: parseExpr_parseFieldList.induct)
  case (4 x)
  then show ?case
    by (auto split: option.splits dest: parseExpr_isPtr)
next
  case (11 names t tag fl)
  then show ?case
    by (auto simp: ptrToPtr_fields_append dest: parseField_ptrToPtr)
qed (auto split: option.splits expr.splits if_splits simp: Let_def baseOf_def)

text \<open>
  C7, as stated, fails: \<open>parseExpr\<close> makes one \<open>Ptr\<close> node per pointer type and does not
  collapse them, so the type \<open>**T\<close> becomes a \<open>Ptr\<close> whose value is a \<open>Ptr\<close>.
\<close>

theorem C7_counterexample_pointer_to_pointer:
  "parseExpr (StarExpr (StarExpr (IdentExpr ''T'')))
     = Some (Ptr (Ptr (Base \<lparr>Value = IDENT, Ident = ''T'', Convert = False,
                              ShimToBase = [], ShimFromBase = []\<rparr>)))
   \<and> ptrToPtr (Ptr (Ptr (Base \<lparr>Value = IDENT, Ident = ''T'', Convert = False,
                              ShimToBase = [], ShimFromBase = []\<rparr>)))"
  by (simp add: pullIdent_def baseOf_def)

text \<open>
  C7, amended. Ingest keeps one \<open>Ptr\<close> node per pointer type. For every type
  expression without a pointer to a pointer (no \<open>**T\<close> in it or in the types of its
  fields, elements and map values), no \<open>Ptr\<close> node of the tree \<open>parseExpr\<close> returns has
  a \<open>Ptr\<close> as its value; the same holds for the tree \<open>GenElem\<close> returns for a type
  spec, whose root is a \<open>Ptr\<close> to the \<open>Struct\<close>.
\<close>

theorem C7_no_ptr_to_ptr_without_pointer_to_pointer:
  "(parseExpr e = Some g \<and> \<not> starOfStar e \<longrightarrow> \<not> ptrToPtr g)
   \<and> (GenElem (name, t) gp = (Some g', gp') \<and> \<not> starOfStar t \<longrightarrow> \<not> ptrToPtr g')"
proof (intro conjI impI)
  assume "parseExpr e = Some g \<and> \<not> starOfStar e"
  then show "\<not> ptrToPtr g"
    using parse_no_ptrToPtr(1) [of e] by blast
next
  assume a: "GenElem (name, t) gp = (Some g', gp') \<and> \<not> starOfStar t"
  show "\<not> ptrToPtr g'"
  proof (cases t)
    case (StructType fl)
    with a have "g' = Ptr (Struct name (parseFieldList fl) False)"
      and "\<not> starOfStar_fields fl"
      by (auto simp: Let_def split: if_splits)
    then show ?thesis
      using parse_no_ptrToPtr(2) [of fl] by simp
  qed (use a in auto)
qed

theorem C7_no_ptr_to_ptr_witness:
  "parseExpr (StarExpr (IdentExpr ''T''))
     = Some (Ptr (Base \<lparr>Value = IDENT, Ident = ''T'', Convert = False,
                         ShimToBase = [], ShimFromBase = []\<rparr>))
   \<and> \<not> starOfStar (StarExpr (IdentExpr ''T''))
   \<and> \<not> ptrToPtr (Ptr (Base \<lparr>Value = IDENT, Ident = ''T'', Convert = False,
                               ShimToBase = [], ShimFromBase = []\<rparr>))
   \<and> GenElem (''Node'', StructType [AstField [''Next''] (StarExpr (IdentExpr ''Node'')) None]) {}
     = (Some (Ptr (Struct ''Node''
          [StructField ''Next'' ''Next''
             (Ptr (Base \<lparr>Value = IDENT, Ident = ''Node'', Convert = False,
                          ShimToBase = [], ShimFromBase = []\<rparr>))] False)),
        {''Node''})
   \<and> \<not> starOfStar (StructType [AstField [''Next''] (StarExpr (IdentExpr ''Node'')) None])
   \<and> \<not> ptrToPtr (Ptr (Struct ''Node''
          [StructField ''Next'' ''Next''
             (Ptr (Base \<lparr>Value = IDENT, Ident = ''Node'', Convert = False,
                          ShimToBase = [], ShimFromBase = []\<rparr>))] False))"
  using C7_no_ptr_to_ptr_without_pointer_to_pointer
    [of "StarExpr (IdentExpr ''T'')"
        "Ptr (Base \<lparr>Value = IDENT, Ident = ''T'', Convert = False,
                     ShimToBase = [], ShimFromBase = []\<rparr>)"
        "''Node''"
        "StructType [AstField [''Next''] (StarExpr (IdentExpr ''Node'')) None]"
        "{}"
        "Ptr (Struct ''Node''
          [StructField ''Next'' ''Next''
             (Ptr (Base \<lparr>Value = IDENT, Ident = ''Node'', Convert = False,
                          ShimToBase = [], ShimFromBase = []\<rparr>))] False)"
        "{''Node''}"]
  by (simp add: pullIdent_def baseOf_def parseField_def fieldTagged_def fieldRest_def)

subsection \<open>Resolved trees\<close>

lemma findUnresolved_not_pending:
  "\<not> pending gi gp (fst (findUnresolved gi gp g))"
  "\<not> pending_fields gi gp (fst (findUnresolved_fields gi gp flds))"
  by (induction gi gp g and gi gp flds rule: findUnresolved_findUnresolved_fields.induct)
     (auto split: prod.splits option.splits simp: baseOf_def)

lemma GetElems_not_pending:
  assumes "GetElems fs tables = (out, unr, gi', gp')" and "g \<in> set out"
  shows "\<not> pending gi' gp' g"
  using assms
  by (auto simp: GetElems_def findUnresolved_not_pending split: prod.splits if_splits)

text \<open>
  C8, as stated, fails: for \<open>type A struct{ X int }\<close> and \<open>type B struct{ F A }\<close> the
  resolver finds \<open>A\<close> in \<open>globalProcessed\<close> and leaves the field's element alone. After
  resolution the tree of \<open>B\<close> holds \<open>Base{IDENT, Ident: "A"}\<close>, not marked \<open>Convert\<close>,
  and \<open>A\<close> is processed.
\<close>

theorem C8_counterexample_processed_ident_left:
  "GetElems
     [[GenDecl [TypeSpec ''A'' (StructType [AstField [''X''] (IdentExpr ''int'') None]),
                TypeSpec ''B'' (StructType [AstField [''F''] (IdentExpr ''A'') None])]]]
     (Map.empty, {})
   = ([Ptr (Struct ''A'' [StructField ''X'' ''X'' (Base (baseOf IntBase))] False),
       Ptr (Struct ''B''
         [StructField ''F'' ''F''
            (Base \<lparr>Value = IDENT, Ident = ''A'', Convert = False,
                   ShimToBase = [], ShimFromBase = []\<rparr>)] False)],
      [], Map.empty(''A'' \<mapsto> IDENT, ''B'' \<mapsto> IDENT), {''B'', ''A''})
   \<and> leftProcessed {''B'', ''A''}
        (Ptr (Struct ''B''
           [StructField ''F'' ''F''
              (Base \<lparr>Value = IDENT, Ident = ''A'', Convert = False,
                     ShimToBase = [], ShimFromBase = []\<rparr>)] False))"
  by (simp add: GetElems_def GetTypeSpecs_def parseField_def fieldTagged_def fieldRest_def
      pullIdent_def baseOf_def)

text \<open>
  C8, amended. After resolution completes over a compilation unit, no returned
  element tree contains, where the resolver walks (through pointers, slices, map values
  and struct fields, not below an array), a base node with \<open>Value = IDENT\<close> whose
  \<open>Ident\<close> is outside \<open>processedTable\<close> and which \<open>identTable\<close> maps to a kind other
  than \<open>IDENT\<close>. A base node with \<open>Value = IDENT\<close> whose \<open>Ident\<close> is in \<open>identTable\<close>
  and in \<open>processedTable\<close> is left as it is and is not reported.
\<close>

theorem C8_resolved_trees:
  "(GetElems fs tables = (out, unr, gi', gp') \<and> g \<in> set out \<longrightarrow> \<not> pending gi' gp' g)
   \<and> (Value b = IDENT \<and> gi (Ident b) = Some tp \<and> Ident b \<in> gp \<longrightarrow>
        findUnresolved gi gp (Base b) = (Base b, []))"
proof (intro conjI impI)
  assume "GetElems fs tables = (out, unr, gi', gp') \<and> g \<in> set out"
  then show "\<not> pending gi' gp' g"
    using GetElems_not_pending [of fs tables out unr gi' gp' g] by blast
next
  assume "Value b = IDENT \<and> gi (Ident b) = Some tp \<and> Ident b \<in> gp"
  then show "findUnresolved gi gp (Base b) = (Base b, [])"
    by simp
qed

theorem C8_resolved_trees_witness:
  "GetElems
     [[GenDecl [TypeSpec ''Celsius'' (IdentExpr ''float64'')],
       GenDecl [TypeSpec ''Thermo''
         (StructType [AstField [''T''] (IdentExpr ''Celsius'') None,
                      AstField [''Next''] (StarExpr (IdentExpr ''Thermo'')) None])]]]
     (Map.empty, {})
   = ([Ptr (Struct ''Thermo''
         [StructField ''T'' ''T''
            (Base \<lparr>Value = Float64, Ident = ''Celsius'', Convert = True,
                   ShimToBase = [], ShimFromBase = []\<rparr>),
          StructField ''Next'' ''Next''
            (Ptr (Base \<lparr>Value = IDENT, Ident = ''Thermo'', Convert = False,
                         ShimToBase = [], ShimFromBase = []\<rparr>))] False)],
      [], Map.empty(''Celsius'' \<mapsto> Float64, ''Thermo'' \<mapsto> IDENT), {''Thermo''})
   \<and> \<not> pending (Map.empty(''Celsius'' \<mapsto> Float64, ''Thermo'' \<mapsto> IDENT)) {''Thermo''}
        (Ptr (Struct ''Thermo''
           [StructField ''T'' ''T''
              (Base \<lparr>Value = Float64, Ident = ''Celsius'', Convert = True,
                     ShimToBase = [], ShimFromBase = []\<rparr>),
            StructField ''Next'' ''Next''
              (Ptr (Base \<lparr>Value = IDENT, Ident = ''Thermo'', Convert = False,
                           ShimToBase = [], ShimFromBase = []\<rparr>))] False))
   \<and> findUnresolved (Map.empty(''Celsius'' \<mapsto> Float64, ''Thermo'' \<mapsto> IDENT)) {''Thermo''}
        (Base \<lparr>Value = IDENT, Ident = ''Thermo'', Convert = False,
               ShimToBase = [], ShimFromBase = []\<rparr>)
     = (Base \<lparr>Value = IDENT, Ident = ''Thermo'', Convert = False,
              ShimToBase = [], ShimFromBase = []\<rparr>, [])"
  using C8_resolved_trees
    [where fs = "[[GenDecl [TypeSpec ''Celsius'' (IdentExpr ''float64'')],
           GenDecl [TypeSpec ''Thermo''
             (StructType [AstField [''T''] (IdentExpr ''Celsius'') None,
                          AstField [''Next''] (StarExpr (IdentExpr ''Thermo'')) None])]]]"
       and tables = "(Map.empty, {})"
       and out = "[Ptr (Struct ''Thermo''
         [StructField ''T'' ''T''
            (Base \<lparr>Value = Float64, Ident = ''Celsius'', Convert = True,
                   ShimToBase = [], ShimFromBase = []\<rparr>),
          StructField ''Next'' ''Next''
            (Ptr (Base \<lparr>Value = IDENT, Ident = ''Thermo'', Convert = False,
                         ShimToBase = [], ShimFromBase = []\<rparr>))] False)]"
       and unr = "[]"
       and gi' = "Map.empty(''Celsius'' \<mapsto> Float64, ''Thermo'' \<mapsto> IDENT)"
       and gp' = "{''Thermo''}"
       and g = "Ptr (Struct ''Thermo''
         [StructField ''T'' ''T''
            (Base \<lparr>Value = Float64, Ident = ''Celsius'', Convert = True,
                   ShimToBase = [], ShimFromBase = []\<rparr>),
          StructField ''Next'' ''Next''
            (Ptr (Base \<lparr>Value = IDENT, Ident = ''Thermo'', Convert = False,
                         ShimToBase = [], ShimFromBase = []\<rparr>))] False)"
       and b = "\<lparr>Value = IDENT, Ident = ''Thermo'', Convert = False,
                 ShimToBase = [], ShimFromBase = []\<rparr>"
       and gi = "Map.empty(''Celsius'' \<mapsto> Float64, ''Thermo'' \<mapsto> IDENT)"
       and tp = IDENT
       and gp = "{''Thermo''}"]
  by (simp add: GetElems_def GetTypeSpecs_def parseField_def fieldTagged_def fieldRest_def
      pullIdent_def baseOf_def)

text \<open>
  C9. Every surfaced codec error reports the resumability of the error taxonomy:
  \<open>ErrShortBytes\<close>, \<open>TypeError\<close>, \<open>IntOverflow\<close>, \<open>UintOverflow\<close>, \<open>ArrayError\<close> and
  \<open>ExtensionTypeError\<close> are resumable, whatever their fields hold; \<open>InvalidPrefixError\<close>
  and the fatal error are not.
\<close>

theorem C9_resumable_taxonomy:
  "Resumable ErrShortBytes
   \<and> (\<forall>m e. Resumable (TypeError m e))
   \<and> (\<forall>v n. Resumable (IntOverflow v n))
   \<and> (\<forall>v n. Resumable (UintOverflow v n))
   \<and> (\<forall>w g. Resumable (ArrayError w g))
   \<and> (\<forall>g w. Resumable (errExt g w))
   \<and> (\<forall>b. \<not> Resumable (InvalidPrefixError b))
   \<and> \<not> Resumable fatal"
  by (simp add: errExt_def)

text \<open>
  C10. On a slice of exactly five bytes that starts with the ext32 prefix,
  \<open>peekExtension\<close> passes its length check (\<open>len(b) < 5\<close> is false) and then reads
  \<open>b[5]\<close>, one past the end: the run-time panic, not \<open>ErrShortBytes\<close>. (For the
  other lengths it returns \<open>ErrShortBytes\<close> or \<open>b[5]\<close>: \<open>peekExtension_ext32\<close>.)
\<close>

theorem C10_peekExtension_ext32_len5_panics:
  "peekExtension [0xc9, 0, 0, 0, 1] = None"
  by (simp add: peekExtension_def index_def mext8_def mext16_def mext32_def
      mfixext1_def mfixext2_def mfixext4_def mfixext8_def mfixext16_def)

end
